theory Spec2Isabelle
  imports Complex_Main "HOL-Library.Stream"
begin

section \<open>JavaScript values, objects and promises\<close>

text \<open>
  The handler of \<^verbatim>\<open>index.js\<close> works on three kinds of JavaScript values: numbers
  (only integral ones occur: the status code and the random integer), strings, and the
  response object. A string is a list of code units; every code unit that occurs is below
  256, so \<^typ>\<open>char\<close> is enough. An object literal is an association list from property
  names to values, in the order in which the literal lists them. \<open>JUndefined\<close> and
  \<open>JBigInt\<close> are there because \<^verbatim>\<open>JSON.stringify\<close> treats them differently from
  every other value: the first is passed through, the second makes it throw.
\<close>

datatype js_error = TypeError

datatype js_value = JUndefined | JNumber int | JBigInt int | JString string

type_synonym js_object = "(string \<times> js_value) list"

text \<open>
  An \<^verbatim>\<open>async\<close> function returns a promise that is rejected with the error its body
  throws and fulfilled with the value its body returns: \<open>Inl\<close> is rejection, \<open>Inr\<close>
  fulfilment.
\<close>

type_synonym 'a promise = "js_error + 'a"

section \<open>Number to string\<close>

text \<open>
  \<^verbatim>\<open>${randomNumber}\<close> in a template literal applies \<^verbatim>\<open>ToString\<close> to the number. For an
  integral number that is its decimal expansion without leading zeros, with a minus sign
  in front when it is negative.
\<close>

definition digit_char :: "nat \<Rightarrow> char" where
  "digit_char d = char_of (48 + d)"

fun digits :: "nat \<Rightarrow> string" where
  "digits n = (if n < 10 then [digit_char n] else digits (n div 10) @ [digit_char (n mod 10)])"

declare digits.simps [simp del]

definition Number_toString :: "int \<Rightarrow> string" where
  "Number_toString n = (if n < 0 then CHR ''-'' # digits (nat (- n)) else digits (nat n))"

section \<open>The random integer\<close>

text \<open>
  Modelled from the spec: lodash's \<^verbatim>\<open>baseRandom\<close>, the part of \<^verbatim>\<open>_.random\<close> that
  serves integral bounds, is not among the sources (lodash is a dependency), and neither
  is the engine's \<^verbatim>\<open>Math.random\<close> behind it. The specification asks for a uniformly
  distributed random integer in the inclusive range between the two bounds. The model
  takes the draw of the random source as a parameter \<open>rand\<close>, a number that
  \<^verbatim>\<open>Math.random\<close> promises to be at least 0 and less than 1, and scales it to the
  range: \<^verbatim>\<open>lower + floor(rand * (upper - lower + 1))\<close>. The product is taken exactly,
  over the rationals (every double is a rational number); the rounding of the double
  multiplication is not modelled.
\<close>

definition baseRandom :: "int \<Rightarrow> int \<Rightarrow> rat \<Rightarrow> int" where
  "baseRandom lower upper rand = lower + \<lfloor>rand * of_int (upper - lower + 1)\<rfloor>"

text \<open>
  Modelled from the spec: \<^verbatim>\<open>_.random(lower, upper)\<close> of lodash, which \<^verbatim>\<open>index.js\<close>
  calls and which is not among the sources, for two integral bounds: a random integer
  between the bounds, both included. Bounds that come in the wrong order are swapped.
\<close>

definition random_lodash :: "int \<Rightarrow> int \<Rightarrow> rat \<Rightarrow> int" where
  "random_lodash lower upper rand =
     (if lower > upper then baseRandom upper lower rand else baseRandom lower upper rand)"

section \<open>JSON.stringify\<close>

text \<open>
  \<^verbatim>\<open>JSON.stringify\<close> of a string is the string between double quotes, where the double
  quote, the backslash and the control characters below the space are escaped: seven
  characters have a two-character escape, the other control characters are written
  \<^verbatim>\<open>\u00XX\<close> with lower-case hexadecimal digits.
\<close>

definition hex_digit :: "nat \<Rightarrow> char" where
  "hex_digit d = (if d < 10 then char_of (48 + d) else char_of (87 + d))"

definition UnicodeEscape :: "char \<Rightarrow> string" where
  "UnicodeEscape c =
     [CHR 0x5C, CHR ''u'', CHR ''0'', CHR ''0'',
      hex_digit (of_char c div 16), hex_digit (of_char c mod 16)]"

definition escape_char :: "char \<Rightarrow> string" where
  "escape_char c =
     (if c = CHR 0x08 then [CHR 0x5C, CHR ''b'']
      else if c = CHR 0x09 then [CHR 0x5C, CHR ''t'']
      else if c = CHR 0x0A then [CHR 0x5C, CHR ''n'']
      else if c = CHR 0x0C then [CHR 0x5C, CHR ''f'']
      else if c = CHR 0x0D then [CHR 0x5C, CHR ''r'']
      else if c = CHR 0x22 then [CHR 0x5C, CHR 0x22]
      else if c = CHR 0x5C then [CHR 0x5C, CHR 0x5C]
      else if (of_char c :: nat) < 0x20 then UnicodeEscape c
      else [c])"

definition QuoteJSONString :: "string \<Rightarrow> string" where
  "QuoteJSONString s = CHR 0x22 # concat (map escape_char s) @ [CHR 0x22]"

fun JSON_stringify :: "js_value \<Rightarrow> js_error + js_value" where
  "JSON_stringify JUndefined = Inr JUndefined"
| "JSON_stringify (JNumber n) = Inr (JString (Number_toString n))"
| "JSON_stringify (JBigInt n) = Inl TypeError"
| "JSON_stringify (JString s) = Inr (JString (QuoteJSONString s))"

section \<open>The handler\<close>

text \<open>
  \<^verbatim>\<open>
  exports.handler = async (event) => {
    const maxValue = 100;
    const randomNumber = _.random(0, maxValue);
    const response = {
      statusCode: 200,
      body: JSON.stringify(`Random number: ${randomNumber}`),
    };
    return response;
  };
  \<close>
  The event may be of any type. The draw of the random source is the second argument.
\<close>

definition message :: "int \<Rightarrow> string" where
  "message randomNumber = ''Random number: '' @ Number_toString randomNumber"

definition handler :: "'e \<Rightarrow> rat \<Rightarrow> js_object promise" where
  "handler event rand =
     (let maxValue = 100;
          randomNumber = random_lodash 0 maxValue rand
      in case JSON_stringify (JString (message randomNumber)) of
           Inl err \<Rightarrow> Inl err
         | Inr body \<Rightarrow> Inr [(''statusCode'', JNumber 200), (''body'', body)])"

section \<open>The handler in its runtime\<close>





section \<open>Reading a response the way the specification tests it\<close>

text \<open>
  The testable properties of the specification decode the body as JSON, match the
  decoded string against \<^verbatim>\<open>Random number: <N>\<close> and extract the integer. The decoder
  below accepts exactly one JSON string literal: the opening quote, then characters from
  the space upwards other than the quote and the backslash, or one of the escapes of the
  JSON grammar, then the closing quote and nothing after it. A \<^verbatim>\<open>\uXXXX\<close> escape is
  accepted when it denotes a code unit below 256.
\<close>

definition hex_value :: "char \<Rightarrow> nat option" where
  "hex_value c =
     (let n = (of_char c :: nat)
      in if 48 \<le> n \<and> n \<le> 57 then Some (n - 48)
         else if 97 \<le> n \<and> n \<le> 102 then Some (n - 87)
         else if 65 \<le> n \<and> n \<le> 70 then Some (n - 55)
         else None)"

definition hex4 :: "char \<Rightarrow> char \<Rightarrow> char \<Rightarrow> char \<Rightarrow> char option" where
  "hex4 h1 h2 h3 h4 =
     (case hex_value h1 of None \<Rightarrow> None | Some a \<Rightarrow>
      case hex_value h2 of None \<Rightarrow> None | Some b \<Rightarrow>
      case hex_value h3 of None \<Rightarrow> None | Some x \<Rightarrow>
      case hex_value h4 of None \<Rightarrow> None | Some y \<Rightarrow>
        if a = 0 \<and> b = 0 then Some (char_of (16 * x + y)) else None)"

definition unescape_simple :: "char \<Rightarrow> char option" where
  "unescape_simple e =
     (if e = CHR 0x22 then Some (CHR 0x22)
      else if e = CHR 0x5C then Some (CHR 0x5C)
      else if e = CHR ''/'' then Some (CHR ''/'')
      else if e = CHR ''b'' then Some (CHR 0x08)
      else if e = CHR ''f'' then Some (CHR 0x0C)
      else if e = CHR ''n'' then Some (CHR 0x0A)
      else if e = CHR ''r'' then Some (CHR 0x0D)
      else if e = CHR ''t'' then Some (CHR 0x09)
      else None)"

fun parse_chars :: "string \<Rightarrow> string option" where
  "parse_chars [] = None"
| "parse_chars (c # cs) =
     (if c = CHR 0x22 then (if cs = [] then Some [] else None)
      else if c = CHR 0x5C then
        (case cs of
           [] \<Rightarrow> None
         | e # rest \<Rightarrow>
             if e = CHR ''u'' then
               (case rest of
                  h1 # h2 # h3 # h4 # rest' \<Rightarrow>
                    (case hex4 h1 h2 h3 h4 of
                       None \<Rightarrow> None
                     | Some d \<Rightarrow> map_option ((#) d) (parse_chars rest'))
                | _ \<Rightarrow> None)
             else
               (case unescape_simple e of
                  None \<Rightarrow> None
                | Some d \<Rightarrow> map_option ((#) d) (parse_chars rest)))
      else if (of_char c :: nat) < 0x20 then None
      else map_option ((#) c) (parse_chars cs))"

definition JSON_parse_string :: "string \<Rightarrow> string option" where
  "JSON_parse_string s =
     (case s of [] \<Rightarrow> None | q # cs \<Rightarrow> if q = CHR 0x22 then parse_chars cs else None)"

text \<open>An integer is an optional minus sign and at least one decimal digit.\<close>

definition digit_value :: "char \<Rightarrow> nat option" where
  "digit_value c =
     (let n = (of_char c :: nat) in if 48 \<le> n \<and> n \<le> 57 then Some (n - 48) else None)"

fun parse_digits :: "nat \<Rightarrow> string \<Rightarrow> nat option" where
  "parse_digits acc [] = Some acc"
| "parse_digits acc (c # cs) =
     (case digit_value c of None \<Rightarrow> None | Some d \<Rightarrow> parse_digits (10 * acc + d) cs)"

definition parse_integer :: "string \<Rightarrow> int option" where
  "parse_integer s =
     (case s of
        [] \<Rightarrow> None
      | c # cs \<Rightarrow>
          if c = CHR ''-''
          then (if cs = [] then None else map_option (\<lambda>n. - int n) (parse_digits 0 cs))
          else map_option int (parse_digits 0 s))"

fun strip_prefix :: "string \<Rightarrow> string \<Rightarrow> string option" where
  "strip_prefix [] s = Some s"
| "strip_prefix (p # ps) [] = None"
| "strip_prefix (p # ps) (c # cs) = (if p = c then strip_prefix ps cs else None)"

definition embedded_number :: "string \<Rightarrow> int option" where
  "embedded_number body =
     (case JSON_parse_string body of
        None \<Rightarrow> None
      | Some m \<Rightarrow>
          (case strip_prefix ''Random number: '' m of
             None \<Rightarrow> None
           | Some t \<Rightarrow> parse_integer t))"

text \<open>The body of a fulfilled response, when it is there and is a string.\<close>

definition body_of :: "js_object promise \<Rightarrow> string option" where
  "body_of p =
     (case p of
        Inl err \<Rightarrow> None
      | Inr response \<Rightarrow>
          (case map_of response ''body'' of Some (JString b) \<Rightarrow> Some b | _ \<Rightarrow> None))"

text \<open>The integer that the body of a response carries, read back from the response.\<close>

definition response_number :: "js_object promise \<Rightarrow> int option" where
  "response_number p = (case body_of p of None \<Rightarrow> None | Some b \<Rightarrow> embedded_number b)"

text \<open>
  The characters that \<^verbatim>\<open>JSON.stringify\<close> does not copy as they are: the double quote,
  the backslash and the control characters.
\<close>

definition needs_escape :: "char \<Rightarrow> bool" where
  "needs_escape c = (c = CHR 0x22 \<or> c = CHR 0x5C \<or> (of_char c :: nat) < 0x20)"

section \<open>Escaping\<close>

lemma escape_char_plain: "\<not> needs_escape c \<Longrightarrow> escape_char c = [c]"
  by (auto simp: escape_char_def needs_escape_def)

lemma escape_char_longer: "needs_escape c \<Longrightarrow> 2 \<le> length (escape_char c)"
  by (auto simp: escape_char_def needs_escape_def UnicodeEscape_def)

lemma escape_char_fixed_iff: "escape_char c = [c] \<longleftrightarrow> \<not> needs_escape c"
proof
  assume fixed: "escape_char c = [c]"
  show "\<not> needs_escape c"
  proof
    assume "needs_escape c"
    then have "2 \<le> length (escape_char c)" by (rule escape_char_longer)
    with fixed show False by simp
  qed
next
  assume "\<not> needs_escape c"
  then show "escape_char c = [c]" by (rule escape_char_plain)
qed

lemma concat_escape_plain:
  "list_all (\<lambda>c. \<not> needs_escape c) s \<Longrightarrow> concat (map escape_char s) = s"
  by (induction s) (simp_all add: escape_char_plain)

section \<open>The characters of the message\<close>

lemma of_char_digit_char: "d < 10 \<Longrightarrow> (of_char (digit_char d) :: nat) = 48 + d"
  by (simp add: digit_char_def)

lemma digit_char_plain: "d < 10 \<Longrightarrow> \<not> needs_escape (digit_char d)"
  using of_char_digit_char [of d] by (auto simp: needs_escape_def)

lemma digit_char_not_minus: "d < 10 \<Longrightarrow> digit_char d \<noteq> CHR ''-''"
  using of_char_digit_char [of d] by auto

lemma digits_plain: "list_all (\<lambda>c. \<not> needs_escape c) (digits n)"
proof (induction n rule: digits.induct)
  case (1 n)
  show ?case
  proof (cases "n < 10")
    case True
    then show ?thesis by (simp add: digits.simps [of n] digit_char_plain)
  next
    case False
    with 1 show ?thesis by (simp add: digits.simps [of n] digit_char_plain)
  qed
qed

lemma Number_toString_plain: "list_all (\<lambda>c. \<not> needs_escape c) (Number_toString n)"
proof -
  have "\<not> needs_escape CHR ''-''" by (simp add: needs_escape_def)
  then show ?thesis by (simp add: Number_toString_def digits_plain)
qed

lemma message_plain: "list_all (\<lambda>c. \<not> needs_escape c) (message n)"
proof -
  have "list_all (\<lambda>c. \<not> needs_escape c) ''Random number: ''"
    by (simp add: needs_escape_def)
  then show ?thesis by (simp add: message_def Number_toString_plain)
qed

lemma Quote_message: "QuoteJSONString (message n) = CHR 0x22 # message n @ [CHR 0x22]"
  by (simp add: QuoteJSONString_def concat_escape_plain message_plain)

section \<open>Decoding what JSON.stringify wrote\<close>

lemma hex_value_hex_digit: "d < 16 \<Longrightarrow> hex_value (hex_digit d) = Some d"
  by (simp add: hex_value_def hex_digit_def)

lemma hex4_UnicodeEscape:
  "hex4 CHR ''0'' CHR ''0'' (hex_digit (of_char c div 16)) (hex_digit (of_char c mod 16)) = Some c"
  if "(of_char c :: nat) < 0x20"
proof -
  have zero: "hex_value CHR ''0'' = Some 0" by (simp add: hex_value_def)
  have "(of_char c :: nat) div 16 < 16" using that by simp
  then show ?thesis by (simp add: hex4_def zero hex_value_hex_digit)
qed

lemma parse_chars_escape_char:
  "parse_chars (escape_char c @ rest) = map_option ((#) c) (parse_chars rest)"
proof (cases "needs_escape c")
  case False
  then have "escape_char c = [c]" by (rule escape_char_plain)
  with False show ?thesis by (simp add: needs_escape_def)
next
  case True
  show ?thesis
  proof (cases "c \<in> set [CHR 0x08, CHR 0x09, CHR 0x0A, CHR 0x0C, CHR 0x0D, CHR 0x22, CHR 0x5C]")
    case True
    then show ?thesis by (auto simp: escape_char_def unescape_simple_def)
  next
    case False
    with True have control: "(of_char c :: nat) < 0x20" by (simp add: needs_escape_def)
    from False have "escape_char c = UnicodeEscape c"
      using control by (simp add: escape_char_def)
    then show ?thesis
      using hex4_UnicodeEscape [OF control] by (simp add: UnicodeEscape_def)
  qed
qed

lemma parse_chars_escaped: "parse_chars (concat (map escape_char s) @ [CHR 0x22]) = Some s"
  by (induction s) (simp_all add: parse_chars_escape_char)

lemma JSON_parse_Quote: "JSON_parse_string (QuoteJSONString s) = Some s"
  by (simp add: JSON_parse_string_def QuoteJSONString_def parse_chars_escaped)

section \<open>Reading the number back\<close>

lemma digit_value_digit_char: "d < 10 \<Longrightarrow> digit_value (digit_char d) = Some d"
  by (simp add: digit_value_def digit_char_def)

lemma parse_digits_append:
  "parse_digits acc (xs @ ys) =
     (case parse_digits acc xs of None \<Rightarrow> None | Some a \<Rightarrow> parse_digits a ys)"
  by (induction xs arbitrary: acc) (simp_all split: option.splits)

lemma parse_digits_digits: "parse_digits 0 (digits n) = Some n"
proof (induction n rule: digits.induct)
  case (1 n)
  show ?case
  proof (cases "n < 10")
    case True
    then show ?thesis by (simp add: digits.simps [of n] digit_value_digit_char)
  next
    case False
    then have "parse_digits 0 (digits (n div 10)) = Some (n div 10)" by (rule 1)
    with False show ?thesis
      by (simp add: digits.simps [of n] parse_digits_append digit_value_digit_char)
  qed
qed

lemma digits_Cons: "\<exists>d cs. d < 10 \<and> digits n = digit_char d # cs"
proof (induction n rule: digits.induct)
  case (1 n)
  show ?case
  proof (cases "n < 10")
    case True
    then show ?thesis by (auto simp: digits.simps [of n])
  next
    case False
    then obtain d cs where "d < 10" "digits (n div 10) = digit_char d # cs"
      using 1 by blast
    with False show ?thesis by (auto simp: digits.simps [of n])
  qed
qed

lemma parse_integer_Number_toString: "parse_integer (Number_toString n) = Some n"
proof (cases "n < 0")
  case True
  obtain d cs where "digits (nat (- n)) = digit_char d # cs"
    using digits_Cons by blast
  then have "digits (nat (- n)) \<noteq> []" by simp
  with True show ?thesis
    by (simp add: parse_integer_def Number_toString_def parse_digits_digits)
next
  case False
  obtain d cs where d: "d < 10" "digits (nat n) = digit_char d # cs"
    using digits_Cons by blast
  have "parse_digits 0 (digit_char d # cs) = Some (nat n)"
    using parse_digits_digits [of "nat n"] d by simp
  with False d show ?thesis
    by (simp add: parse_integer_def Number_toString_def digit_char_not_minus
        del: parse_digits.simps)
qed

lemma embedded_number_Quote: "embedded_number (QuoteJSONString (message n)) = Some n"
proof -
  have "strip_prefix ''Random number: '' (message n) = Some (Number_toString n)"
    by (simp add: message_def)
  then show ?thesis
    by (simp add: embedded_number_def JSON_parse_Quote parse_integer_Number_toString)
qed

section \<open>The handler, unfolded\<close>

lemma handler_eq:
  "handler event rand =
     Inr [(''statusCode'', JNumber 200),
          (''body'', JString (QuoteJSONString (message (random_lodash 0 100 rand))))]"
  by (simp add: handler_def)

lemma response_number_handler:
  "response_number (handler event rand) = Some (random_lodash 0 100 rand)"
  by (simp add: response_number_def body_of_def handler_eq embedded_number_Quote)


section \<open>The range of the random integer\<close>

lemma random_lodash_eq_iff:
  "random_lodash 0 100 rand = n \<longleftrightarrow> of_int n / 101 \<le> rand \<and> rand < (of_int n + 1) / 101"
  by (simp add: random_lodash_def baseRandom_def floor_eq_iff pos_divide_le_eq
      pos_less_divide_eq)

lemma random_lodash_range:
  assumes "0 \<le> rand" and "rand < 1"
  shows "0 \<le> random_lodash 0 100 rand \<and> random_lodash 0 100 rand \<le> 100"
proof -
  have "0 \<le> rand * 101" using assms by simp
  moreover have "rand * 101 < 101" using assms by simp
  ultimately show ?thesis
    by (simp add: random_lodash_def baseRandom_def floor_le_iff)
qed

lemma interval_bounds:
  fixes n :: int
  assumes "0 \<le> n" and "n \<le> 100"
  shows "(0::rat) \<le> of_int n / 101" and "(of_int n + 1) / 101 \<le> (1::rat)"
proof -
  show "(0::rat) \<le> of_int n / 101" using assms by simp
  have "(of_int n :: rat) \<le> 100" using assms(2) by (metis of_int_le_iff of_int_numeral)
  then show "(of_int n + 1) / 101 \<le> (1::rat)" by simp
qed

lemma random_lodash_preimage:
  fixes n :: int
  assumes "0 \<le> n" and "n \<le> 100"
  shows "{r. 0 \<le> r \<and> r < 1 \<and> random_lodash 0 100 r = n}
           = {of_int n / 101 ..< (of_int n + 1) / 101}"
  using interval_bounds [OF assms] by (auto simp: random_lodash_eq_iff)

lemma random_lodash_attained:
  fixes n :: int
  assumes "0 \<le> n" and "n \<le> 100"
  shows "0 \<le> (of_int n / 101 :: rat) \<and> (of_int n / 101 :: rat) < 1
           \<and> random_lodash 0 100 (of_int n / 101) = n"
  using interval_bounds [OF assms] by (simp add: random_lodash_eq_iff)

section \<open>The claims about the handler\<close>

text \<open>
  C1: for every invocation event, and whatever the random source draws, the promise that
  the handler returns is fulfilled with a response whose \<^verbatim>\<open>statusCode\<close> is the
  number 200.
\<close>

theorem handler_statusCode:
  "\<exists>response. handler event rand = Inr response
      \<and> map_of response ''statusCode'' = Some (JNumber 200)"
  by (simp add: handler_eq)

text \<open>
  C2: when the draw of the random source lies in the range that \<^verbatim>\<open>Math.random\<close>
  promises (at least 0, less than 1), the number read back from the body of the response
  is an integer \<open>N\<close> with \<open>0 \<le> N \<le> 100\<close>. Both ends are attained: the draw 0 gives 0,
  and the draw 127/128 gives 100.
\<close>

theorem handler_number_in_range:
  "(0 \<le> rand \<and> rand < 1 \<longrightarrow>
      (\<exists>N. response_number (handler event rand) = Some N \<and> 0 \<le> N \<and> N \<le> 100))
   \<and> (\<exists>r. 0 \<le> r \<and> r < 1 \<and> response_number (handler event r) = Some 0)
   \<and> (\<exists>r. 0 \<le> r \<and> r < 1 \<and> response_number (handler event r) = Some 100)"
proof (intro conjI impI)
  assume "0 \<le> rand \<and> rand < 1"
  then have "0 \<le> random_lodash 0 100 rand \<and> random_lodash 0 100 rand \<le> 100"
    by (simp add: random_lodash_range)
  then show "\<exists>N. response_number (handler event rand) = Some N \<and> 0 \<le> N \<and> N \<le> 100"
    by (simp add: response_number_handler)
next
  have "random_lodash 0 100 0 = 0" by (simp add: random_lodash_eq_iff)
  then have "(0::rat) \<le> 0 \<and> (0::rat) < 1 \<and> response_number (handler event 0) = Some 0"
    by (simp add: response_number_handler)
  then show "\<exists>r. 0 \<le> r \<and> r < 1 \<and> response_number (handler event r) = Some 0" ..
next
  have "random_lodash 0 100 (127 / 128) = 100" by (simp add: random_lodash_eq_iff)
  then have "(0::rat) \<le> 127 / 128 \<and> (127 / 128 :: rat) < 1
      \<and> response_number (handler event (127 / 128)) = Some 100"
    by (simp add: response_number_handler)
  then show "\<exists>r. 0 \<le> r \<and> r < 1 \<and> response_number (handler event r) = Some 100" ..
qed

text \<open>The draw 3/8 is in the range, and the theorem applies to it.\<close>

theorem handler_number_in_range_witness:
  "(0::rat) \<le> 3 / 8 \<and> (3 / 8 :: rat) < 1
   \<and> (\<exists>N. response_number (handler () (3 / 8)) = Some N \<and> 0 \<le> N \<and> N \<le> 100)"
  using handler_number_in_range [where rand = "3 / 8" and event = "()"] by simp

text \<open>
  C3: for every invocation event and every draw, the response is the object with
  \<^verbatim>\<open>statusCode\<close> 200 and a \<^verbatim>\<open>body\<close> that is a JSON string literal: a double quote,
  the text \<^verbatim>\<open>Random number: \<close>, the decimal numeral of some integer \<open>N\<close>, and a double
  quote; nothing but the numeral varies. Decoding the body as JSON gives the string
  \<^verbatim>\<open>Random number: <N>\<close>. With the empty object as event and the draw 3/8 (which
  scales to 37.875) the response is the one of the specification's scenario, with 37.
\<close>

theorem handler_body_shape:
  "(\<exists>N. handler event rand =
          Inr [(''statusCode'', JNumber 200),
               (''body'', JString (CHR 0x22 # ''Random number: '' @ Number_toString N @ [CHR 0x22]))]
        \<and> JSON_parse_string (CHR 0x22 # ''Random number: '' @ Number_toString N @ [CHR 0x22])
            = Some (''Random number: '' @ Number_toString N))
   \<and> handler ([] :: js_object) (3 / 8) =
        Inr [(''statusCode'', JNumber 200),
             (''body'', JString (CHR 0x22 # ''Random number: 37'' @ [CHR 0x22]))]"
proof
  let ?N = "random_lodash 0 100 rand"
  have quoted: "QuoteJSONString (message ?N)
      = CHR 0x22 # ''Random number: '' @ Number_toString ?N @ [CHR 0x22]"
    by (simp add: Quote_message) (simp add: message_def)
  have "JSON_parse_string (QuoteJSONString (message ?N)) = Some (message ?N)"
    by (rule JSON_parse_Quote)
  then have decoded:
    "JSON_parse_string (CHR 0x22 # ''Random number: '' @ Number_toString ?N @ [CHR 0x22])
       = Some (''Random number: '' @ Number_toString ?N)"
    unfolding quoted by (simp add: message_def)
  have "handler event rand =
          Inr [(''statusCode'', JNumber 200),
               (''body'', JString (CHR 0x22 # ''Random number: '' @ Number_toString ?N @ [CHR 0x22]))]"
    unfolding handler_eq quoted ..
  with decoded show "\<exists>N. handler event rand =
          Inr [(''statusCode'', JNumber 200),
               (''body'', JString (CHR 0x22 # ''Random number: '' @ Number_toString N @ [CHR 0x22]))]
        \<and> JSON_parse_string (CHR 0x22 # ''Random number: '' @ Number_toString N @ [CHR 0x22])
            = Some (''Random number: '' @ Number_toString N)"
    by blast
next
  show "handler ([] :: js_object) (3 / 8) =
        Inr [(''statusCode'', JNumber 200),
             (''body'', JString (CHR 0x22 # ''Random number: 37'' @ [CHR 0x22]))]"
    by code_simp
qed

text \<open>
  C4: for every invocation event and every draw, the response has exactly the two
  properties \<^verbatim>\<open>statusCode\<close> and \<^verbatim>\<open>body\<close>, each once, and no other.
\<close>

theorem handler_attributes:
  "\<exists>response. handler event rand = Inr response
      \<and> map fst response = [''statusCode'', ''body'']"
  unfolding handler_eq by simp

text \<open>
  C5: the handler raises no error. \<^verbatim>\<open>JSON.stringify\<close> succeeds with a string on every
  string (it throws on other values only), and for every event and every draw the
  promise of the handler is fulfilled with a response and never rejected.
\<close>

theorem handler_fulfilled:
  "(\<exists>quoted. JSON_stringify (JString s) = Inr (JString quoted))
   \<and> (\<exists>response. handler event rand = Inr response)
   \<and> (\<forall>err. handler event rand \<noteq> Inl err)"
  by (simp add: handler_eq)

text \<open>
  C6: the event is not used. Two invocations with any two events, even of different
  types, and the same draw of the random source return the same response.
\<close>

theorem handler_event_unused: "handler (e1 :: 'a) rand = handler (e2 :: 'b) rand"
  by (simp only: handler_eq)

text \<open>
  C7: the random integer is uniform over the inclusive range from 0 to 100. For a draw
  in the range of \<^verbatim>\<open>Math.random\<close> the integer is never outside 0..100, and it is the
  integer that the response carries. For every \<open>N\<close> from 0 to 100 the draws that give
  \<open>N\<close> are those of the interval from \<open>N / 101\<close> (included) to \<open>(N + 1) / 101\<close>
  (excluded): the 101 intervals have the same length, so a uniform draw gives each
  value with the same probability, and none is left out: some draw makes the handler
  return \<open>N\<close>.
\<close>

theorem random_lodash_uniform:
  "(0 \<le> rand \<and> rand < 1 \<longrightarrow>
      0 \<le> random_lodash 0 100 rand \<and> random_lodash 0 100 rand \<le> 100
      \<and> response_number (handler event rand) = Some (random_lodash 0 100 rand))
   \<and> (0 \<le> N \<and> N \<le> 100 \<longrightarrow>
        {r. 0 \<le> r \<and> r < 1 \<and> random_lodash 0 100 r = N}
          = {of_int N / 101 ..< (of_int N + 1) / 101}
        \<and> (\<exists>r. 0 \<le> r \<and> r < 1 \<and> response_number (handler event r) = Some N))"
proof (intro conjI impI)
  assume draw: "0 \<le> rand \<and> rand < 1"
  then show "0 \<le> random_lodash 0 100 rand" by (simp add: random_lodash_range)
  from draw show "random_lodash 0 100 rand \<le> 100" by (simp add: random_lodash_range)
  show "response_number (handler event rand) = Some (random_lodash 0 100 rand)"
    by (rule response_number_handler)
next
  assume "0 \<le> N \<and> N \<le> 100"
  then have N: "0 \<le> N" "N \<le> 100" by simp_all
  show "{r. 0 \<le> r \<and> r < 1 \<and> random_lodash 0 100 r = N}
          = {of_int N / 101 ..< (of_int N + 1) / 101}"
    using N by (rule random_lodash_preimage)
  let ?r = "of_int N / 101 :: rat"
  have "0 \<le> ?r \<and> ?r < 1 \<and> response_number (handler event ?r) = Some N"
    using random_lodash_attained [OF N] by (simp add: response_number_handler)
  then show "\<exists>r. 0 \<le> r \<and> r < 1 \<and> response_number (handler event r) = Some N" ..
qed

text \<open>The draw 1/2 and the value 37 satisfy the hypotheses, and the theorem applies.\<close>

theorem random_lodash_uniform_witness:
  "(0::rat) \<le> 1 / 2 \<and> (1 / 2 :: rat) < 1
   \<and> 0 \<le> random_lodash 0 100 (1 / 2) \<and> random_lodash 0 100 (1 / 2) \<le> 100
   \<and> response_number (handler () (1 / 2)) = Some (random_lodash 0 100 (1 / 2))
   \<and> (0::int) \<le> 37 \<and> (37::int) \<le> 100
   \<and> {r. 0 \<le> r \<and> r < 1 \<and> random_lodash 0 100 r = 37} = {37 / 101 ..< 38 / 101}
   \<and> (\<exists>r. 0 \<le> r \<and> r < 1 \<and> response_number (handler () r) = Some 37)"
  using random_lodash_uniform [where rand = "1 / 2" and N = 37 and event = "()"] by simp



text \<open>
  C9: JSON encoding of the message is lossless. For every integer \<open>N\<close>, so for each of
  0..100, no character of the message \<^verbatim>\<open>Random number: <N>\<close> is changed by escaping,
  the encoded message is the message between two double quotes, and decoding the
  encoded message gives the message back. Decoding the body of the handler's response
  gives the message of the integer drawn.
\<close>

theorem message_json_lossless:
  "list_all (\<lambda>c. escape_char c = [c]) (message N)
   \<and> QuoteJSONString (message N) = CHR 0x22 # message N @ [CHR 0x22]
   \<and> JSON_parse_string (QuoteJSONString (message N)) = Some (message N)
   \<and> (case body_of (handler event rand) of None \<Rightarrow> None | Some b \<Rightarrow> JSON_parse_string b)
        = Some (message (random_lodash 0 100 rand))"
proof (intro conjI)
  show "(case body_of (handler event rand) of None \<Rightarrow> None | Some b \<Rightarrow> JSON_parse_string b)
        = Some (message (random_lodash 0 100 rand))"
    by (simp add: body_of_def handler_eq JSON_parse_Quote)
  show "list_all (\<lambda>c. escape_char c = [c]) (message N)"
    using message_plain [of N] by (simp add: escape_char_fixed_iff)
  show "QuoteJSONString (message N) = CHR 0x22 # message N @ [CHR 0x22]"
    by (rule Quote_message)
  show "JSON_parse_string (QuoteJSONString (message N)) = Some (message N)"
    by (rule JSON_parse_Quote)
qed



end
